theory Spec2Isabelle
  imports Main "HOL-Library.Multiset"
begin

section \<open>Python values, exceptions and strings\<close>

text \<open>
  The program is Python. Its dictionaries, lists and JSON documents are modelled by
  the datatype \<open>pyval\<close>; a dictionary is an association list in insertion order
  with distinct keys, read with \<open>map_of\<close>. Numbers are Python's unbounded
  integers; floating point numbers are not modelled. A string is a list of characters,
  read as code points below 128: on that range the string functions below are those of
  Python's \<open>str\<close>.
\<close>

datatype pyval =
    PNone
  | PBool bool
  | PInt int
  | PStr string
  | PList "pyval list"
  | PDict "(string \<times> pyval) list"

type_synonym pydict = "(string \<times> pyval) list"

text \<open>
  An exception is its class and the text that \<open>str(e)\<close> gives. Every class below is
  a subclass of \<open>Exception\<close>; the requests library's \<open>Timeout\<close> is the only one the
  source catches by name, next to \<open>json.JSONDecodeError\<close>.
\<close>

datatype exc_class =
    RuntimeError
  | KeyError
  | IndexError
  | TypeError
  | AttributeError
  | JSONDecodeError
  | Timeout
  | RequestException
  | OSError

datatype pyexc = PyExc exc_class string

fun exc_str :: "pyexc \<Rightarrow> string" where
  "exc_str (PyExc c m) = m"

fun exc_cls :: "pyexc \<Rightarrow> exc_class" where
  "exc_cls (PyExc c m) = c"

subsection \<open>Dictionary and list access\<close>

text \<open>\<open>d.get(k)\<close>: the value, or \<open>None\<close> when the key is absent.\<close>

definition dict_get :: "pydict \<Rightarrow> string \<Rightarrow> pyval" where
  "dict_get d k = (case map_of d k of None \<Rightarrow> PNone | Some v \<Rightarrow> v)"

text \<open>\<open>v[k]\<close> with a string key: \<open>KeyError\<close> on a dictionary without the key,
  \<open>TypeError\<close> on every other value.\<close>

fun getitem :: "pyval \<Rightarrow> string \<Rightarrow> pyexc + pyval" where
  "getitem (PDict d) k =
     (case map_of d k of
        None \<Rightarrow> Inl (PyExc KeyError ([CHR 0x27] @ k @ [CHR 0x27]))
      | Some v \<Rightarrow> Inr v)"
| "getitem (PStr s) k = Inl (PyExc TypeError ''string indices must be integers'')"
| "getitem (PList xs) k = Inl (PyExc TypeError ''list indices must be integers or slices, not str'')"
| "getitem v k = Inl (PyExc TypeError ''object is not subscriptable'')"

text \<open>\<open>v[0]\<close>: the first element of a list or string, \<open>IndexError\<close> when it is
  empty, \<open>KeyError\<close> on a dictionary (whose keys are strings), \<open>TypeError\<close> otherwise.\<close>

fun getitem0 :: "pyval \<Rightarrow> pyexc + pyval" where
  "getitem0 (PList []) = Inl (PyExc IndexError ''list index out of range'')"
| "getitem0 (PList (x # xs)) = Inr x"
| "getitem0 (PStr []) = Inl (PyExc IndexError ''string index out of range'')"
| "getitem0 (PStr (c # cs)) = Inr (PStr [c])"
| "getitem0 (PDict d) = Inl (PyExc KeyError ''0'')"
| "getitem0 v = Inl (PyExc TypeError ''object is not subscriptable'')"

text \<open>\<open>v[:40]\<close>: strings and lists can be sliced, nothing else can.\<close>

fun slice40 :: "pyval \<Rightarrow> pyexc + pyval" where
  "slice40 (PStr s) = Inr (PStr (take 40 s))"
| "slice40 (PList xs) = Inr (PList (take 40 xs))"
| "slice40 (PDict d) = Inl (PyExc KeyError ''slice(None, 40, None)'')"
| "slice40 v = Inl (PyExc TypeError ''object is not subscriptable'')"

subsection \<open>Strings\<close>

definition lower_char :: "char \<Rightarrow> char" where
  "lower_char c =
     (let n = (of_char c :: nat) in if 65 \<le> n \<and> n \<le> 90 then char_of (n + 32) else c)"

text \<open>\<open>s.lower()\<close>\<close>

definition lower :: "string \<Rightarrow> string" where
  "lower s = map lower_char s"

text \<open>The characters \<open>str.strip()\<close> removes: tab, line feed, vertical tab, form feed,
  carriage return, the four separators 0x1c to 0x1f, and space.\<close>

definition is_space :: "char \<Rightarrow> bool" where
  "is_space c = (let n = (of_char c :: nat) in (9 \<le> n \<and> n \<le> 13) \<or> (28 \<le> n \<and> n \<le> 32))"

text \<open>\<open>s.strip()\<close>\<close>

definition strip :: "string \<Rightarrow> string" where
  "strip s = rev (dropWhile is_space (rev (dropWhile is_space s)))"

text \<open>The line boundaries of \<open>str.splitlines()\<close> below 128: line feed, vertical tab,
  form feed, carriage return and the separators 0x1c to 0x1e; a carriage return followed
  by a line feed is one boundary.\<close>

definition is_linebreak :: "char \<Rightarrow> bool" where
  "is_linebreak c = (let n = (of_char c :: nat) in (10 \<le> n \<and> n \<le> 13) \<or> (28 \<le> n \<and> n \<le> 30))"

fun splitlines_from :: "string \<Rightarrow> string \<Rightarrow> string list" where
  "splitlines_from cur [] = (if cur = [] then [] else [rev cur])"
| "splitlines_from cur (c # cs) =
     (if c = CHR 0x0D then
        (case cs of
           d # ds \<Rightarrow> if d = CHR 0x0A then rev cur # splitlines_from [] ds
                     else rev cur # splitlines_from [] cs
         | [] \<Rightarrow> rev cur # splitlines_from [] cs)
      else if is_linebreak c then rev cur # splitlines_from [] cs
      else splitlines_from (c # cur) cs)"

text \<open>\<open>s.splitlines()\<close>\<close>

definition splitlines :: "string \<Rightarrow> string list" where
  "splitlines s = splitlines_from [] s"

text \<open>\<open>s.startswith(p)\<close>\<close>

definition startswith :: "string \<Rightarrow> string \<Rightarrow> bool" where
  "startswith s p = (take (length p) s = p)"

text \<open>\<open>k in s\<close> for strings: \<open>k\<close> occurs in \<open>s\<close> as a contiguous block.\<close>

fun contains :: "string \<Rightarrow> string \<Rightarrow> bool" where
  "contains [] k = (k = [])"
| "contains (c # cs) k = (startswith (c # cs) k \<or> contains cs k)"

text \<open>\<open>s.replace(old, new)\<close> for a non-empty \<open>old\<close>: the occurrences are found from
  the left and do not overlap. The counter is the number of characters of the current
  occurrence still to be skipped.\<close>

fun replace_from :: "string \<Rightarrow> string \<Rightarrow> nat \<Rightarrow> string \<Rightarrow> string" where
  "replace_from old new k [] = []"
| "replace_from old new (Suc k) (c # cs) = replace_from old new k cs"
| "replace_from old new 0 (c # cs) =
     (if startswith (c # cs) old then new @ replace_from old new (length old - 1) cs
      else c # replace_from old new 0 cs)"

definition replace :: "string \<Rightarrow> string \<Rightarrow> string \<Rightarrow> string" where
  "replace s old new = replace_from old new 0 s"

text \<open>The decimal digits of a natural number, as an f-string prints an HTTP status.\<close>

fun str_nat :: "nat \<Rightarrow> string" where
  "str_nat n =
     (if n < 10 then [char_of (48 + n)]
      else str_nat (n div 10) @ [char_of (48 + n mod 10)])"

declare str_nat.simps [simp del]

section \<open>Priority scoring (core/dashboard.py)\<close>

text \<open>
  A row of the data frame built from the processed records. The text fields are
  strings, \<open>None\<close> standing for a field the row does not have; \<open>actions\<close> is whatever
  the enricher stored; \<open>num_actions\<close> is the column that \<open>prepare_email_dataframe\<close>
  adds before it scores the rows.
\<close>

record row =
  category :: "string option"
  subject :: "string option"
  body :: "string option"
  actions :: pyval
  num_actions :: "int option"

text \<open>\<open>_count_actions\<close>\<close>

fun count_actions :: "pyval \<Rightarrow> int" where
  "count_actions PNone = 0"
| "count_actions (PDict d) =
     (case map_of d ''tasks'' of Some (PList ts) \<Rightarrow> int (length ts) | _ \<Rightarrow> 0)"
| "count_actions (PList xs) = int (length xs)"
| "count_actions v = 0"

text \<open>\<open>any(k in text for k in keywords)\<close>\<close>

definition any_in :: "string list \<Rightarrow> string \<Rightarrow> bool" where
  "any_in keywords text = list_ex (\<lambda>k. contains text k) keywords"

definition urgent_keywords :: "string list" where
  "urgent_keywords = [''urgent'', ''asap'', ''immediately'', ''critical'', ''high priority'']"

definition deadline_keywords :: "string list" where
  "deadline_keywords = [''deadline'', ''by '', ''before '', ''due '', ''last date'', ''submit'']"

definition meeting_keywords :: "string list" where
  "meeting_keywords = [''meeting'', ''call'', ''discussion'', ''review'', ''planning'']"

text \<open>\<open>row.get(key, '')\<close> on a text field.\<close>

definition get_text :: "string option \<Rightarrow> string" where
  "get_text f = (case f of None \<Rightarrow> [] | Some s \<Rightarrow> s)"

text \<open>\<open>_compute_priority_row\<close>: the score is a variable updated statement by
  statement, as in the source.\<close>

definition compute_priority_row :: "row \<Rightarrow> int \<times> string" where
  "compute_priority_row r =
     (let score = (0::int);
          cat = lower (get_text (category r));
          text = lower (get_text (subject r) @ '' '' @ get_text (body r));
          score = (if contains cat ''important'' then score + 3 else score);
          score = (if contains cat ''to-do'' \<or> contains cat ''todo'' then score + 3 else score);
          score = (if contains cat ''spam'' \<or> contains cat ''newsletter'' then score - 1 else score);
          score = (if any_in urgent_keywords text then score + 3 else score);
          score = (if any_in deadline_keywords text then score + 2 else score);
          score = (if any_in meeting_keywords text then score + 1 else score);
          n = (case num_actions r of None \<Rightarrow> 0 | Some n \<Rightarrow> n);
          score = (if n > 0 then score + min 3 n else score);
          label = (if score \<ge> 7 then ''HIGH'' else if score \<ge> 4 then ''MEDIUM'' else ''LOW'')
      in (score, label))"

text \<open>The two steps of \<open>prepare_email_dataframe\<close> on one row: the action count is
  stored in \<open>num_actions\<close>, then the row is scored.\<close>

definition prepare_row :: "row \<Rightarrow> row" where
  "prepare_row r = r\<lparr>num_actions := Some (count_actions (actions r))\<rparr>"

definition priority :: "row \<Rightarrow> int \<times> string" where
  "priority r = compute_priority_row (prepare_row r)"

subsection \<open>The scoring rule as the specification words it\<close>

text \<open>
  A keyword occurs in a text case-insensitively when some block of the text, read
  without regard to case, is the keyword.
\<close>

definition ci_contains :: "string \<Rightarrow> string \<Rightarrow> bool" where
  "ci_contains text k =
     (\<exists>i \<in> {0..length text}. lower (take (length k) (drop i text)) = lower k)"

definition spec_action_count :: "pyval \<Rightarrow> nat" where
  "spec_action_count a =
     (case a of
        PDict d \<Rightarrow> (case map_of d ''tasks'' of Some (PList ts) \<Rightarrow> length ts | _ \<Rightarrow> 0)
      | PList xs \<Rightarrow> length xs
      | _ \<Rightarrow> 0)"

definition mentions :: "string \<Rightarrow> string list \<Rightarrow> bool" where
  "mentions text ks = (\<exists>k \<in> set ks. ci_contains text k)"

definition bonus :: "bool \<Rightarrow> int \<Rightarrow> int" where
  "bonus b n = (if b then n else 0)"

definition spec_score :: "string \<Rightarrow> string \<Rightarrow> nat \<Rightarrow> int" where
  "spec_score cat text n =
       bonus (ci_contains cat ''important'') 3
     + bonus (ci_contains cat ''to-do'' \<or> ci_contains cat ''todo'') 3
     + bonus (ci_contains cat ''spam'' \<or> ci_contains cat ''newsletter'') (- 1)
     + bonus (mentions text [''urgent'', ''asap'', ''immediately'', ''critical'', ''high priority'']) 3
     + bonus (mentions text [''deadline'', ''by '', ''before '', ''due '', ''last date'', ''submit'']) 2
     + bonus (mentions text [''meeting'', ''call'', ''discussion'', ''review'', ''planning'']) 1
     + int (min 3 n)"

definition spec_label :: "int \<Rightarrow> string" where
  "spec_label s = (if s \<ge> 7 then ''HIGH'' else if s \<ge> 4 then ''MEDIUM'' else ''LOW'')"

definition spec_priority :: "row \<Rightarrow> int \<times> string" where
  "spec_priority r =
     (let s = spec_score (get_text (category r))
                (get_text (subject r) @ '' '' @ get_text (body r))
                (spec_action_count (actions r))
      in (s, spec_label s))"

section \<open>The completion service (core/processing.py, core/agent.py)\<close>

text \<open>
  What one \<open>requests.post\<close> gives: a response with its status code and body text, a
  \<open>requests.exceptions.Timeout\<close>, or another exception of the library (a refused
  connection, for example), each exception with its message. The service is a sequence
  of such outcomes, one for each request in the order they are made. The text of the
  prompt does not enter the model: the answers are given by the sequence, whatever was
  asked. \<open>json.loads\<close> is a parameter \<open>loads\<close>, \<open>None\<close> standing for a
  \<open>JSONDecodeError\<close>.
\<close>

datatype http_outcome =
    Response nat string
  | TimeoutRaised string
  | RequestFailed string

type_synonym net = "nat \<Rightarrow> http_outcome"

text \<open>What a call does besides returning: requests, and pauses in milliseconds.\<close>

datatype event = Post | Sleep nat

definition posts :: "event list \<Rightarrow> nat" where
  "posts tr = length (filter (\<lambda>e. e = Post) tr)"

definition and_then :: "pyexc + 'a \<Rightarrow> ('a \<Rightarrow> pyexc + 'b) \<Rightarrow> pyexc + 'b" where
  "and_then r f = (case r of Inl e \<Rightarrow> Inl e | Inr x \<Rightarrow> f x)"

text \<open>\<open>v.strip()\<close> on a value that may not be a string.\<close>

fun strip_value :: "pyval \<Rightarrow> pyexc + string" where
  "strip_value (PStr s) = Inr (strip s)"
| "strip_value v = Inl (PyExc AttributeError ''object has no attribute strip'')"

text \<open>\<open>resp.json()["choices"][0]["message"]["content"].strip()\<close>\<close>

definition response_content :: "(string \<Rightarrow> pyval option) \<Rightarrow> string \<Rightarrow> pyexc + string" where
  "response_content loads text =
     (case loads text of
        None \<Rightarrow> Inl (PyExc JSONDecodeError ''Expecting value'')
      | Some data \<Rightarrow>
          and_then (getitem data ''choices'') (\<lambda>choices.
          and_then (getitem0 choices) (\<lambda>choice.
          and_then (getitem choice ''message'') (\<lambda>message.
          and_then (getitem message ''content'') strip_value))))"

text \<open>
  \<open>call_openrouter\<close> of core/processing.py. The loop \<open>for attempt in range(2)\<close> runs
  over the list of attempt numbers; \<open>k\<close> is the index of the next request and \<open>tr\<close> what
  has been done so far. Falling out of the loop raises "Failed after retries".
\<close>

fun attempts ::
  "(string \<Rightarrow> pyval option) \<Rightarrow> net \<Rightarrow> nat \<Rightarrow> nat list \<Rightarrow> event list
     \<Rightarrow> (pyexc + string) \<times> event list" where
  "attempts loads net k [] tr = (Inl (PyExc RuntimeError ''Failed after retries''), tr)"
| "attempts loads net k (attempt # rest) tr =
     (case net k of
        Response status text \<Rightarrow>
          if status = 200 then (response_content loads text, tr @ [Post])
          else if status = 429 then attempts loads net (Suc k) rest (tr @ [Post, Sleep 2000])
          else (Inl (PyExc RuntimeError (''API Error '' @ str_nat status)), tr @ [Post])
      | TimeoutRaised m \<Rightarrow>
          if attempt = 0 then attempts loads net (Suc k) rest (tr @ [Post, Sleep 1000])
          else (Inl (PyExc RuntimeError ''Timeout''), tr @ [Post])
      | RequestFailed m \<Rightarrow> (Inl (PyExc RequestException m), tr @ [Post]))"

definition call_openrouter ::
  "(string \<Rightarrow> pyval option) \<Rightarrow> net \<Rightarrow> nat \<Rightarrow> (pyexc + string) \<times> event list" where
  "call_openrouter loads net k = attempts loads net k [0, 1] []"

text \<open>\<open>call_openrouter\<close> of core/agent.py: one request, no handler around it.\<close>

definition agent_call_openrouter ::
  "(string \<Rightarrow> pyval option) \<Rightarrow> net \<Rightarrow> nat \<Rightarrow> (pyexc + string) \<times> event list" where
  "agent_call_openrouter loads net k =
     (case net k of
        Response status text \<Rightarrow>
          if status \<noteq> 200 then
            (Inl (PyExc RuntimeError (''OpenRouter Error '' @ str_nat status @ '': '' @ text)),
             [Post])
          else (response_content loads text, [Post])
      | TimeoutRaised m \<Rightarrow> (Inl (PyExc Timeout m), [Post])
      | RequestFailed m \<Rightarrow> (Inl (PyExc RequestException m), [Post]))"

text \<open>\<open>ask_grok\<close> builds its prompt from the question and the email and makes the call.\<close>

definition ask_grok ::
  "(string \<Rightarrow> pyval option) \<Rightarrow> string \<Rightarrow> pydict \<Rightarrow> net \<Rightarrow> nat
     \<Rightarrow> (pyexc + string) \<times> event list" where
  "ask_grok loads user_query email net k = agent_call_openrouter loads net k"

section \<open>The per-item enricher (core/processing.py)\<close>

text \<open>\<open>out.splitlines()[0]\<close>\<close>

definition first_line :: "string \<Rightarrow> pyexc + string" where
  "first_line out =
     (case splitlines out of
        [] \<Rightarrow> Inl (PyExc IndexError ''list index out of range'')
      | l # ls \<Rightarrow> Inr l)"

text \<open>\<open>categorize_email\<close>\<close>

definition categorize_email ::
  "(string \<Rightarrow> pyval option) \<Rightarrow> pydict \<Rightarrow> pyval \<Rightarrow> net \<Rightarrow> nat
     \<Rightarrow> (pyexc + string) \<times> event list" where
  "categorize_email loads email categorization_prompt net k =
     (case call_openrouter loads net k of
        (Inl e, tr) \<Rightarrow> (Inl e, tr)
      | (Inr out, tr) \<Rightarrow> (and_then (first_line out) (\<lambda>l. Inr (strip l)), tr))"

text \<open>The cleaning step of \<open>extract_actions\<close>: when the answer starts with a code
  fence, every \<open>```json\<close> and then every \<open>```\<close> is removed and the rest is stripped.\<close>

definition clean_fences :: "string \<Rightarrow> string" where
  "clean_fences raw =
     (if startswith raw ''```'' then strip (replace (replace raw ''```json'' []) ''```'' [])
      else raw)"

text \<open>\<open>extract_actions\<close>: the parsed value, or the cleaned text when it does not parse.\<close>

definition extract_actions ::
  "(string \<Rightarrow> pyval option) \<Rightarrow> pydict \<Rightarrow> pyval \<Rightarrow> net \<Rightarrow> nat
     \<Rightarrow> (pyexc + pyval) \<times> event list" where
  "extract_actions loads email action_prompt net k =
     (case call_openrouter loads net k of
        (Inl e, tr) \<Rightarrow> (Inl e, tr)
      | (Inr out, tr) \<Rightarrow>
          (let raw = clean_fences (strip out)
           in (Inr (case loads raw of Some v \<Rightarrow> v | None \<Rightarrow> PStr raw), tr)))"

text \<open>The five fields both branches of \<open>process_single_email\<close> copy with \<open>email.get\<close>.\<close>

definition copied_fields :: "pydict \<Rightarrow> pydict" where
  "copied_fields email =
     [(''id'', dict_get email ''id''),
      (''sender'', dict_get email ''sender''),
      (''subject'', dict_get email ''subject''),
      (''timestamp'', dict_get email ''timestamp''),
      (''body'', dict_get email ''body'')]"

text \<open>The body of the \<open>try\<close> statement of \<open>process_single_email\<close>: the pacing delay,
  the two calls, the success record. The requests of the second call follow those of
  the first in the item's outcome sequence.\<close>

definition process_try ::
  "(string \<Rightarrow> pyval option) \<Rightarrow> pydict \<Rightarrow> pyval \<Rightarrow> net \<Rightarrow> (pyexc + pyval) \<times> event list" where
  "process_try loads email prompts net =
     (case getitem prompts ''categorization_prompt'' of
        Inl e \<Rightarrow> (Inl e, [Sleep 200])
      | Inr cat_prompt \<Rightarrow>
          (case categorize_email loads email cat_prompt net 0 of
             (Inl e, tr1) \<Rightarrow> (Inl e, Sleep 200 # tr1)
           | (Inr cat, tr1) \<Rightarrow>
               (case getitem prompts ''action_item_prompt'' of
                  Inl e \<Rightarrow> (Inl e, Sleep 200 # tr1)
                | Inr act_prompt \<Rightarrow>
                    (case extract_actions loads email act_prompt net (posts tr1) of
                       (Inl e, tr2) \<Rightarrow> (Inl e, Sleep 200 # tr1 @ tr2)
                     | (Inr acts, tr2) \<Rightarrow>
                         (Inr (PDict (copied_fields email @
                                 [(''category'', PStr cat),
                                  (''actions'', acts),
                                  (''status'', PStr ''success'')])),
                          Sleep 200 # tr1 @ tr2)))))"

text \<open>\<open>process_single_email\<close>: the \<open>except Exception\<close> handler turns every exception
  of the body into the error record.\<close>

definition process_single_email ::
  "(string \<Rightarrow> pyval option) \<Rightarrow> pydict \<Rightarrow> pyval \<Rightarrow> net \<Rightarrow> pyval \<times> event list" where
  "process_single_email loads email prompts net =
     (case process_try loads email prompts net of
        (Inr record, tr) \<Rightarrow> (record, tr)
      | (Inl e, tr) \<Rightarrow>
          (PDict (copied_fields email @
             [(''category'', PStr ''Error''),
              (''actions'', PStr (''Processing failed: '' @ exc_str e)),
              (''status'', PStr ''error'')]),
           tr))"

section \<open>The stores (core/processing.py, core/drafts.py, core/ingest.py, core/prompts.py)\<close>

text \<open>
  A file of the data directory: absent, present but failing when it is opened or read
  (\<open>open\<close> or \<open>read\<close> raises, with the given message: the bytes are not UTF-8, the
  path is a directory, permission is refused), or present with its text.
  \<open>json.dump\<close> is a parameter \<open>dumps\<close>.
\<close>

datatype file_state = Missing | Unreadable string | Text string

record files =
  mock_inbox_file :: file_state
  processed_file :: file_state
  drafts_file :: file_state
  prompts_file :: file_state

text \<open>\<open>load_processed\<close>: only \<open>json.JSONDecodeError\<close> is caught.\<close>

definition load_processed :: "(string \<Rightarrow> pyval option) \<Rightarrow> file_state \<Rightarrow> pyexc + pyval" where
  "load_processed loads f =
     (case f of
        Missing \<Rightarrow> Inr (PList [])
      | Unreadable m \<Rightarrow> Inl (PyExc OSError m)
      | Text s \<Rightarrow>
          (let content = strip s
           in if content = [] then Inr (PList [])
              else (case loads content of None \<Rightarrow> Inr (PList []) | Some v \<Rightarrow> Inr v)))"

text \<open>\<open>save_processed\<close>\<close>

definition save_processed :: "(pyval \<Rightarrow> string) \<Rightarrow> pyval list \<Rightarrow> files \<Rightarrow> files" where
  "save_processed dumps processed fs = fs\<lparr>processed_file := Text (dumps (PList processed))\<rparr>"

text \<open>\<open>load_drafts\<close>: every exception is caught.\<close>

definition load_drafts :: "(string \<Rightarrow> pyval option) \<Rightarrow> file_state \<Rightarrow> pyexc + pyval" where
  "load_drafts loads f =
     (case f of
        Missing \<Rightarrow> Inr (PList [])
      | Unreadable m \<Rightarrow> Inr (PList [])
      | Text s \<Rightarrow> (case loads s of None \<Rightarrow> Inr (PList []) | Some v \<Rightarrow> Inr v))"

text \<open>\<open>load_mock_inbox\<close>: every exception is caught.\<close>

definition load_mock_inbox :: "(string \<Rightarrow> pyval option) \<Rightarrow> file_state \<Rightarrow> pyval" where
  "load_mock_inbox loads f =
     (case f of
        Missing \<Rightarrow> PList []
      | Unreadable m \<Rightarrow> PList []
      | Text s \<Rightarrow> (case loads s of None \<Rightarrow> PList [] | Some v \<Rightarrow> v))"

text \<open>\<open>DEFAULT_PROMPTS\<close>\<close>

definition DEFAULT_PROMPTS :: pydict where
  "DEFAULT_PROMPTS =
     [(''categorization_prompt'',
       PStr (''You are an email categorization assistant. '' @
             ''Categorize this email into one of these categories: Important, Newsletter, Spam, To-Do. '' @
             ''To-Do emails must include a direct request requiring user action. '' @
             ''Reply ONLY with the category name.'')),
      (''action_item_prompt'',
       PStr (''Extract all action items and deadlines from this email. Respond in JSON as a list under '' @
             [CHR 0x27] @ ''tasks'' @ [CHR 0x27] @ '': [{'' @
             [CHR 0x22] @ ''task'' @ [CHR 0x22] @ '': '' @ [CHR 0x22] @ ''...'' @ [CHR 0x22] @ '', '' @
             [CHR 0x22] @ ''deadline'' @ [CHR 0x22] @ '': '' @ [CHR 0x22] @ ''...'' @ [CHR 0x22] @
             ''}]. If there is no explicit deadline, set '' @
             [CHR 0x22] @ ''deadline'' @ [CHR 0x22] @ '': null.'')),
      (''auto_reply_prompt'',
       PStr (''You write polite, concise professional replies. '' @
             ''Draft a reply to this email based on the user'' @ [CHR 0x27] @ ''s tone: '' @
             ''friendly but professional. If it is a meeting request, ask for an agenda and confirm time. '' @
             ''Respond with Subject and Body in a clearly marked format.''))]"

text \<open>\<open>load_prompts\<close>: the parsed file when there is one, with no handler around the
  read; the defaults otherwise.\<close>

definition load_prompts :: "(string \<Rightarrow> pyval option) \<Rightarrow> file_state \<Rightarrow> pyexc + pyval" where
  "load_prompts loads f =
     (case f of
        Missing \<Rightarrow> Inr (PDict DEFAULT_PROMPTS)
      | Unreadable m \<Rightarrow> Inl (PyExc OSError m)
      | Text s \<Rightarrow>
          (case loads s of
             None \<Rightarrow> Inl (PyExc JSONDecodeError ''Expecting value'')
           | Some v \<Rightarrow> Inr v))"

text \<open>\<open>prompts.get("auto_reply_prompt", default)\<close> in \<open>generate_reply_draft\<close>, on
  whatever \<open>load_prompts\<close> returned.\<close>

fun get_or :: "pyval \<Rightarrow> string \<Rightarrow> pyval \<Rightarrow> pyexc + pyval" where
  "get_or (PDict d) k dflt = Inr (case map_of d k of None \<Rightarrow> dflt | Some v \<Rightarrow> v)"
| "get_or v k dflt = Inl (PyExc AttributeError ''object has no attribute get'')"

text \<open>\<open>generate_reply_draft\<close>\<close>

definition generate_reply_draft ::
  "(string \<Rightarrow> pyval option) \<Rightarrow> pydict \<Rightarrow> files \<Rightarrow> net \<Rightarrow> nat \<Rightarrow> (pyexc + string) \<times> event list" where
  "generate_reply_draft loads email fs net k =
     (case load_prompts loads (prompts_file fs) of
        Inl e \<Rightarrow> (Inl e, [])
      | Inr prompts \<Rightarrow>
          (case get_or prompts ''auto_reply_prompt'' (PStr ''Write a polite reply to this email.'') of
             Inl e \<Rightarrow> (Inl e, [])
           | Inr auto_reply_prompt \<Rightarrow> agent_call_openrouter loads net k))"

section \<open>The batch run (core/processing.py)\<close>

text \<open>\<open>not emails\<close> is the negation of Python's truth value.\<close>

fun truthy :: "pyval \<Rightarrow> bool" where
  "truthy PNone = False"
| "truthy (PBool b) = b"
| "truthy (PInt i) = (i \<noteq> 0)"
| "truthy (PStr s) = (s \<noteq> [])"
| "truthy (PList xs) = (xs \<noteq> [])"
| "truthy (PDict d) = (d \<noteq> [])"

text \<open>\<open>for email in emails\<close>: a list gives its elements, a dictionary its keys, a
  string its characters; nothing else can be iterated.\<close>

fun py_iter :: "pyval \<Rightarrow> pyexc + pyval list" where
  "py_iter (PList xs) = Inr xs"
| "py_iter (PDict d) = Inr (map (\<lambda>kv. PStr (fst kv)) d)"
| "py_iter (PStr s) = Inr (map (\<lambda>c. PStr [c]) s)"
| "py_iter v = Inl (PyExc TypeError ''object is not iterable'')"

text \<open>
  One submitted task, \<open>process_single_email(email, prompts)\<close> on an element of the
  inbox. On an element that is not a dictionary the first \<open>email.get\<close> raises inside the
  \<open>try\<close>, and the handler's own \<open>email.get\<close> raises again: the task ends with that
  exception, which \<open>future.result()\<close> raises in the collecting loop.
\<close>

fun submit ::
  "(string \<Rightarrow> pyval option) \<Rightarrow> pyval \<Rightarrow> pyval \<Rightarrow> net \<Rightarrow> (pyexc + pyval) \<times> event list" where
  "submit loads (PDict email) prompts net =
     (case process_single_email loads email prompts net of (record, tr) \<Rightarrow> (Inr record, tr))"
| "submit loads v prompts net =
     (Inl (PyExc AttributeError ''object has no attribute get''), [Sleep 200])"

text \<open>The progress line printed for one result: the status is read, the subject is
  sliced, and on success the category is read. Only its failure matters here.\<close>

definition progress :: "pyval \<Rightarrow> pyexc + unit" where
  "progress result =
     and_then (getitem result ''status'') (\<lambda>status.
       if status = PStr ''success'' then
         and_then (getitem result ''subject'') (\<lambda>subj.
         and_then (slice40 subj) (\<lambda>short.
         and_then (getitem result ''category'') (\<lambda>cat. Inr ())))
       else
         and_then (getitem result ''subject'') (\<lambda>subj.
         and_then (slice40 subj) (\<lambda>short. Inr ())))"

text \<open>
  The loop over \<open>as_completed\<close>: the results arrive in some order; each is appended to
  \<open>processed\<close> and then reported. An exception of \<open>future.result()\<close> or of the report
  leaves the loop, is caught by \<open>except Exception\<close>, and the run goes on with what has
  been collected.
\<close>

fun collect :: "(pyexc + pyval) list \<Rightarrow> pyval list \<Rightarrow> pyval list" where
  "collect [] processed = processed"
| "collect (Inl e # rest) processed = processed"
| "collect (Inr result # rest) processed =
     (case progress result of
        Inl e \<Rightarrow> processed @ [result]
      | Inr u \<Rightarrow> collect rest (processed @ [result]))"

text \<open>
  \<open>a < b\<close> on the values an id can be: integers (and booleans, which are integers) and
  strings, ordered by code points. Every other pair is reported as the \<open>TypeError\<close> of
  unorderable types; lists, which Python also orders, are not modelled.
\<close>

fun str_lt :: "string \<Rightarrow> string \<Rightarrow> bool" where
  "str_lt [] [] = False"
| "str_lt [] (d # ds) = True"
| "str_lt (c # cs) [] = False"
| "str_lt (c # cs) (d # ds) =
     ((of_char c :: nat) < of_char d \<or> (c = d \<and> str_lt cs ds))"

fun py_lt :: "pyval \<Rightarrow> pyval \<Rightarrow> pyexc + bool" where
  "py_lt (PInt a) (PInt b) = Inr (a < b)"
| "py_lt (PInt a) (PBool b) = Inr (a < of_bool b)"
| "py_lt (PBool a) (PInt b) = Inr (of_bool a < b)"
| "py_lt (PBool a) (PBool b) = Inr (\<not> a \<and> b)"
| "py_lt (PStr a) (PStr b) = Inr (str_lt a b)"
| "py_lt a b = Inl (PyExc TypeError ''< not supported between instances'')"

text \<open>
  \<open>processed.sort(key=lambda x: x["id"])\<close>: the keys are computed first, then the list
  is sorted with the comparison \<open>a < b\<close> alone, stably. The model inserts each element, from the last
  to the first, before the first element that is not smaller than it. A comparison
  that raises makes the sort raise.
\<close>

fun insert_by_key ::
  "pyval \<times> pyval \<Rightarrow> (pyval \<times> pyval) list \<Rightarrow> pyexc + (pyval \<times> pyval) list" where
  "insert_by_key x [] = Inr [x]"
| "insert_by_key x (y # ys) =
     and_then (py_lt (fst y) (fst x)) (\<lambda>smaller.
       if smaller then and_then (insert_by_key x ys) (\<lambda>r. Inr (y # r))
       else Inr (x # y # ys))"

fun sort_keyed :: "(pyval \<times> pyval) list \<Rightarrow> pyexc + (pyval \<times> pyval) list" where
  "sort_keyed [] = Inr []"
| "sort_keyed (x # xs) = and_then (sort_keyed xs) (insert_by_key x)"

fun keyed :: "pyval list \<Rightarrow> pyexc + (pyval \<times> pyval) list" where
  "keyed [] = Inr []"
| "keyed (r # rs) =
     and_then (getitem r ''id'') (\<lambda>k. and_then (keyed rs) (\<lambda>ks. Inr ((k, r) # ks)))"

definition sort_by_id :: "pyval list \<Rightarrow> pyexc + pyval list" where
  "sort_by_id processed =
     and_then (keyed processed) (\<lambda>ks. and_then (sort_keyed ks) (\<lambda>s. Inr (map snd s)))"

text \<open>
  \<open>run_ingestion_pipeline\<close>. \<open>nets i\<close> is the outcome sequence of the requests made for
  the \<open>i\<close>-th email, and \<open>arrival\<close> the order in which the tasks complete, a permutation
  of the positions of the inbox. The result is what the run returns or raises, the
  files after it, and what each task did.
\<close>

definition run_ingestion_pipeline ::
  "(string \<Rightarrow> pyval option) \<Rightarrow> (pyval \<Rightarrow> string) \<Rightarrow> (nat \<Rightarrow> net) \<Rightarrow> nat list \<Rightarrow> files
     \<Rightarrow> (pyexc + pyval list) \<times> files \<times> event list list" where
  "run_ingestion_pipeline loads dumps nets arrival fs =
     (let emails = load_mock_inbox loads (mock_inbox_file fs)
      in if \<not> truthy emails then
           (Inl (PyExc RuntimeError ''No emails found. Put data/mock_inbox.json first.''), fs, [])
         else
           (case load_prompts loads (prompts_file fs) of
              Inl e \<Rightarrow> (Inl e, fs, [])
            | Inr prompts \<Rightarrow>
                (case getitem prompts ''categorization_prompt'' of
                   Inl e \<Rightarrow> (Inl e, fs, [])
                 | Inr cat_prompt \<Rightarrow>
                     (case getitem prompts ''action_item_prompt'' of
                        Inl e \<Rightarrow> (Inl e, fs, [])
                      | Inr act_prompt \<Rightarrow>
                          (let tasks =
                                 (case py_iter emails of
                                    Inl e \<Rightarrow> []
                                  | Inr es \<Rightarrow>
                                      map (\<lambda>i. submit loads (es ! i) prompts (nets i))
                                        [0..<length es]);
                               processed =
                                 collect (map (\<lambda>i. fst (tasks ! i))
                                            (filter (\<lambda>i. i < length tasks) arrival)) []
                           in (case sort_by_id processed of
                                 Inl e \<Rightarrow> (Inl e, fs, map snd tasks)
                               | Inr sorted_records \<Rightarrow>
                                   (Inr sorted_records,
                                    save_processed dumps sorted_records fs,
                                    map snd tasks)))))))"

section \<open>Sample inputs\<close>

text \<open>
  Concrete inputs for the examples below: a few JSON texts with the values
  \<open>json.loads\<close> gives for them, and a few outcome sequences of the service.
\<close>

definition quoted :: "string \<Rightarrow> string" where
  "quoted s = [CHR 0x22] @ s @ [CHR 0x22]"

text \<open>The body of a completion answer with the given content (a content without
  quotes or backslashes), and its parsed form.\<close>

definition chat_text :: "string \<Rightarrow> string" where
  "chat_text c =
     ''{'' @ quoted ''choices'' @ '': [{'' @ quoted ''message'' @ '': {'' @
     quoted ''content'' @ '': '' @ quoted c @ ''}}]}''"

definition chat :: "string \<Rightarrow> pyval" where
  "chat c = PDict [(''choices'', PList [PDict [(''message'', PDict [(''content'', PStr c)])]])]"

definition partial_prompts_text :: string where
  "partial_prompts_text = ''{'' @ quoted ''categorization_prompt'' @ '': '' @ quoted ''Sort it'' @ ''}''"

definition sample_documents :: "(string \<times> pyval) list" where
  "sample_documents =
     [(''[]'', PList []),
      (''{}'', PDict []),
      (partial_prompts_text, PDict [(''categorization_prompt'', PStr ''Sort it'')]),
      (chat_text [], chat []),
      (chat_text ''Work'', chat ''Work''),
      (chat_text ''[]'', chat ''[]''),
      (chat_text ''no tasks'', chat ''no tasks'')]"

definition sample_loads :: "string \<Rightarrow> pyval option" where
  "sample_loads s = map_of sample_documents s"

text \<open>The service answers 429 once and then 200 with the category "Work".\<close>

fun limited_once :: net where
  "limited_once 0 = Response 429 ''slow down''"
| "limited_once (Suc k) = Response 200 (chat_text ''Work'')"

text \<open>The service answers 500 to every request.\<close>

fun always_500 :: net where
  "always_500 k = Response 500 ''boom''"

text \<open>The service answers every request with 200 and an empty content.\<close>

fun always_empty :: net where
  "always_empty k = Response 200 (chat_text [])"

text \<open>The service answers "Work" to the first request and "no tasks" afterwards.\<close>

fun work_then_text :: net where
  "work_then_text 0 = Response 200 (chat_text ''Work'')"
| "work_then_text (Suc k) = Response 200 (chat_text ''no tasks'')"

definition sample_email :: "int \<Rightarrow> pydict" where
  "sample_email i =
     [(''id'', PInt i), (''sender'', PStr ''ana@example.com''), (''subject'', PStr ''Budget''),
      (''timestamp'', PStr ''2024-01-05T10:00:00''), (''body'', PStr ''Numbers attached.'')]"

section \<open>Priority scoring: the code computes the specified rule\<close>

lemma contains_iff: "contains s k \<longleftrightarrow> (\<exists>i \<le> length s. take (length k) (drop i s) = k)"
proof (induction s)
  case Nil
  show ?case by auto
next
  case (Cons c cs)
  have "(\<exists>i \<le> length (c # cs). take (length k) (drop i (c # cs)) = k)
        \<longleftrightarrow> take (length k) (c # cs) = k \<or> (\<exists>j \<le> length cs. take (length k) (drop j cs) = k)"
    (is "?L \<longleftrightarrow> ?A \<or> ?B")
  proof
    assume ?L
    then obtain i where i: "i \<le> length (c # cs)" "take (length k) (drop i (c # cs)) = k" by blast
    show "?A \<or> ?B"
    proof (cases i)
      case 0 with i show ?thesis by simp
    next
      case (Suc j) with i show ?thesis by auto
    qed
  next
    assume "?A \<or> ?B"
    then show ?L
    proof
      assume ?A then have "take (length k) (drop 0 (c # cs)) = k" by simp
      then show ?L by blast
    next
      assume ?B
      then obtain j where "j \<le> length cs" "take (length k) (drop j cs) = k" by blast
      then have "Suc j \<le> length (c # cs)" "take (length k) (drop (Suc j) (c # cs)) = k" by simp_all
      then show ?L by blast
    qed
  qed
  with Cons show ?case unfolding contains.simps startswith_def by blast
qed

lemma contains_lower_ci:
  assumes "lower k = k"
  shows "contains (lower t) k \<longleftrightarrow> ci_contains t k"
proof -
  have "take (length k) (drop i (lower t)) = lower (take (length k) (drop i t))" for i
    by (simp add: lower_def take_map drop_map)
  then show ?thesis
    using assms by (simp add: contains_iff ci_contains_def Bex_def lower_def)
qed

lemma keywords_lower:
  "lower ''important'' = ''important''" "lower ''to-do'' = ''to-do''" "lower ''todo'' = ''todo''"
  "lower ''spam'' = ''spam''" "lower ''newsletter'' = ''newsletter''"
  "lower ''urgent'' = ''urgent''" "lower ''asap'' = ''asap''"
  "lower ''immediately'' = ''immediately''" "lower ''critical'' = ''critical''"
  "lower ''high priority'' = ''high priority''"
  "lower ''deadline'' = ''deadline''" "lower ''by '' = ''by ''" "lower ''before '' = ''before ''"
  "lower ''due '' = ''due ''" "lower ''last date'' = ''last date''" "lower ''submit'' = ''submit''"
  "lower ''meeting'' = ''meeting''" "lower ''call'' = ''call''"
  "lower ''discussion'' = ''discussion''" "lower ''review'' = ''review''"
  "lower ''planning'' = ''planning''"
  by code_simp+

lemma count_actions_spec: "count_actions a = int (spec_action_count a)"
  by (cases a) (auto simp: spec_action_count_def split: option.splits pyval.splits)

lemma any_in_urgent: "any_in urgent_keywords (lower t) \<longleftrightarrow>
   mentions t [''urgent'', ''asap'', ''immediately'', ''critical'', ''high priority'']"
  by (simp add: any_in_def mentions_def urgent_keywords_def contains_lower_ci keywords_lower)

lemma any_in_deadline: "any_in deadline_keywords (lower t) \<longleftrightarrow>
   mentions t [''deadline'', ''by '', ''before '', ''due '', ''last date'', ''submit'']"
  by (simp add: any_in_def mentions_def deadline_keywords_def contains_lower_ci keywords_lower)

lemma any_in_meeting: "any_in meeting_keywords (lower t) \<longleftrightarrow>
   mentions t [''meeting'', ''call'', ''discussion'', ''review'', ''planning'']"
  by (simp add: any_in_def mentions_def meeting_keywords_def contains_lower_ci keywords_lower)

lemma if_bonus: "(if b then s + n else s) = s + bonus b n"
  "(if b then s - 1 else s) = s + bonus b (- 1)"
  by (simp_all add: bonus_def)

lemma min_actions: "(if int c > 0 then s + min 3 (int c) else s) = s + int (min 3 c)"
  by (simp add: min_def)

lemma compute_priority_row_bonus:
  "compute_priority_row r =
     (let cat = lower (get_text (category r));
          text = lower (get_text (subject r) @ '' '' @ get_text (body r));
          n = (case num_actions r of None \<Rightarrow> 0 | Some n \<Rightarrow> n);
          s = bonus (contains cat ''important'') 3
            + bonus (contains cat ''to-do'' \<or> contains cat ''todo'') 3
            + bonus (contains cat ''spam'' \<or> contains cat ''newsletter'') (- 1)
            + bonus (any_in urgent_keywords text) 3
            + bonus (any_in deadline_keywords text) 2
            + bonus (any_in meeting_keywords text) 1
            + (if n > 0 then min 3 n else 0)
      in (s, spec_label s))"
  unfolding compute_priority_row_def Let_def spec_label_def if_bonus
  by (simp add: bonus_def)

lemma prepare_row_fields:
  "category (prepare_row r) = category r" "subject (prepare_row r) = subject r"
  "body (prepare_row r) = body r" "num_actions (prepare_row r) = Some (count_actions (actions r))"
  by (simp_all add: prepare_row_def)

lemma priority_spec: "priority r = spec_priority r"
proof -
  have n: "(if count_actions (actions r) > 0 then min 3 (count_actions (actions r)) else 0)
           = int (min 3 (spec_action_count (actions r)))"
    by (simp add: count_actions_spec min_def)
  show ?thesis
    unfolding priority_def compute_priority_row_bonus spec_priority_def spec_score_def Let_def
      prepare_row_fields
    by (simp only: option.case n any_in_urgent any_in_deadline any_in_meeting
          contains_lower_ci keywords_lower)
qed
lemma ci_contains_code: "lower k = k \<Longrightarrow> ci_contains t k = contains (lower t) k"
  using contains_lower_ci by simp

lemma newsletter_lower: "lower ''Newsletter'' = ''newsletter''"
  by code_simp

lemma newsletter_contains:
  "\<not> contains ''newsletter'' ''important''" "\<not> contains ''newsletter'' ''to-do''"
  "\<not> contains ''newsletter'' ''todo''" "contains ''newsletter'' ''newsletter''"
  by code_simp+

lemma newsletter_category:
  "\<not> ci_contains ''Newsletter'' ''important''" "\<not> ci_contains ''Newsletter'' ''to-do''"
  "\<not> ci_contains ''Newsletter'' ''todo''" "ci_contains ''Newsletter'' ''newsletter''"
  by (simp_all only: ci_contains_code keywords_lower newsletter_lower newsletter_contains
        not_False_eq_True)

lemma newsletter_score:
  assumes "\<not> mentions t [''urgent'', ''asap'', ''immediately'', ''critical'', ''high priority'']"
    and "\<not> mentions t [''deadline'', ''by '', ''before '', ''due '', ''last date'', ''submit'']"
    and "\<not> mentions t [''meeting'', ''call'', ''discussion'', ''review'', ''planning'']"
  shows "spec_score ''Newsletter'' t 0 = - 1"
  unfolding spec_score_def by (simp only: assms newsletter_category bonus_def) simp

lemma no_keyword_by_lower:
  assumes "lower t = lt" "list_all (\<lambda>k. lower k = k) ks" "list_all (\<lambda>k. \<not> contains lt k) ks"
  shows "\<not> mentions t ks"
  using assms by (auto simp: mentions_def list_all_iff ci_contains_code)

text \<open>
  C2. For every row, the priority that \<open>prepare_email_dataframe\<close> computes (the action
  count stored by \<open>_count_actions\<close>, then \<open>_compute_priority_row\<close>) is the additive
  rule of the specification: +3 for "important" in the category, +3 for "to-do" or
  "todo", -1 for "spam" or "newsletter", +3, +2 and +1 for an urgent, deadline and meeting
  keyword in subject and body, plus the smaller of 3 and the action count, all matches
  case-insensitive and a missing field read as empty; the label is HIGH from 7, MEDIUM
  from 4, LOW below. The record with category "To-Do update", subject "Please submit
  report by Friday" and two tasks scores 7 and is HIGH; a record with category
  "Newsletter", no keyword in its text and no action scores -1 and is LOW.
\<close>

theorem priority_rule:
  "priority r = spec_priority r
   \<and> priority \<lparr>category = Some ''To-Do update'',
               subject = Some ''Please submit report by Friday'', body = Some ''...'',
               actions = PDict [(''tasks'', PList [t1, t2])], num_actions = na\<rparr> = (7, ''HIGH'')
   \<and> (\<not> mentions (get_text s @ '' '' @ get_text b)
            [''urgent'', ''asap'', ''immediately'', ''critical'', ''high priority'']
      \<and> \<not> mentions (get_text s @ '' '' @ get_text b)
            [''deadline'', ''by '', ''before '', ''due '', ''last date'', ''submit'']
      \<and> \<not> mentions (get_text s @ '' '' @ get_text b)
            [''meeting'', ''call'', ''discussion'', ''review'', ''planning'']
      \<and> spec_action_count a = 0
      \<longrightarrow> priority \<lparr>category = Some ''Newsletter'', subject = s, body = b,
               actions = a, num_actions = na'\<rparr> = (- 1, ''LOW''))"
proof (intro conjI impI)
  show "priority r = spec_priority r" by (rule priority_spec)
next
  show "priority \<lparr>category = Some ''To-Do update'',
               subject = Some ''Please submit report by Friday'', body = Some ''...'',
               actions = PDict [(''tasks'', PList [t1, t2])], num_actions = na\<rparr> = (7, ''HIGH'')"
    by code_simp
next
  let ?t = "get_text s @ '' '' @ get_text b"
  assume h: "\<not> mentions ?t [''urgent'', ''asap'', ''immediately'', ''critical'', ''high priority'']
      \<and> \<not> mentions ?t [''deadline'', ''by '', ''before '', ''due '', ''last date'', ''submit'']
      \<and> \<not> mentions ?t [''meeting'', ''call'', ''discussion'', ''review'', ''planning'']
      \<and> spec_action_count a = 0"
  then have "spec_score ''Newsletter'' ?t 0 = - 1"
    by (intro newsletter_score) simp_all
  moreover have "spec_label (- 1) = ''LOW''"
    by (simp add: spec_label_def)
  ultimately show "priority \<lparr>category = Some ''Newsletter'', subject = s, body = b,
               actions = a, num_actions = na'\<rparr> = (- 1, ''LOW'')"
    using h by (simp add: priority_spec spec_priority_def get_text_def)
qed

theorem priority_rule_witness:
  "\<not> mentions (get_text (Some ''Weekly digest'') @ '' '' @ get_text None)
        [''urgent'', ''asap'', ''immediately'', ''critical'', ''high priority'']
   \<and> \<not> mentions (get_text (Some ''Weekly digest'') @ '' '' @ get_text None)
        [''deadline'', ''by '', ''before '', ''due '', ''last date'', ''submit'']
   \<and> \<not> mentions (get_text (Some ''Weekly digest'') @ '' '' @ get_text None)
        [''meeting'', ''call'', ''discussion'', ''review'', ''planning'']
   \<and> spec_action_count (PStr ''nothing to do'') = 0
   \<and> priority \<lparr>category = Some ''Newsletter'', subject = Some ''Weekly digest'', body = None,
               actions = PStr ''nothing to do'', num_actions = None\<rparr> = (- 1, ''LOW'')"
proof -
  let ?t = "get_text (Some ''Weekly digest'') @ '' '' @ get_text None"
  have l: "lower ?t = ''weekly digest ''"
    by code_simp
  have u: "\<not> mentions ?t [''urgent'', ''asap'', ''immediately'', ''critical'', ''high priority'']"
    by (rule no_keyword_by_lower [OF l]) code_simp+
  have d: "\<not> mentions ?t [''deadline'', ''by '', ''before '', ''due '', ''last date'', ''submit'']"
    by (rule no_keyword_by_lower [OF l]) code_simp+
  have m: "\<not> mentions ?t [''meeting'', ''call'', ''discussion'', ''review'', ''planning'']"
    by (rule no_keyword_by_lower [OF l]) code_simp+
  have c: "spec_action_count (PStr ''nothing to do'') = 0"
    by (simp add: spec_action_count_def)
  have h: "\<not> mentions ?t [''urgent'', ''asap'', ''immediately'', ''critical'', ''high priority'']
      \<and> \<not> mentions ?t [''deadline'', ''by '', ''before '', ''due '', ''last date'', ''submit'']
      \<and> \<not> mentions ?t [''meeting'', ''call'', ''discussion'', ''review'', ''planning'']
      \<and> spec_action_count (PStr ''nothing to do'') = 0"
    using u d m c by (intro conjI)
  have "priority \<lparr>category = Some ''Newsletter'', subject = Some ''Weekly digest'', body = None,
               actions = PStr ''nothing to do'', num_actions = None\<rparr> = (- 1, ''LOW'')"
    by (rule priority_rule [THEN conjunct2, THEN conjunct2, THEN mp, OF h])
  with h show ?thesis by simp
qed

end
